theory Spec2Isabelle
  imports Main "HOL-Library.Sublist"
begin

section \<open>Python values used by Project.py\<close>

text \<open>
  A Python \<open>str\<close> is a sequence of Unicode code points, so a string is a list of code
  point numbers. ASCII literals are written \<open>ascii ''...''\<close>; a character beyond ASCII is
  written as its code point (for example \<open>0xF3\<close> for o with acute accent), exactly the
  code points found in Project.py, whose text is in composed (NFC) form.
\<close>

type_synonym ustr = "nat list"

abbreviation ascii :: "string \<Rightarrow> ustr" where
  "ascii s \<equiv> map of_char s"

text \<open>
  The values a caller can hand to \<open>chat\<close> or a library can hand back: a \<open>str\<close>, \<open>None\<close>,
  an \<open>int\<close> or a \<open>bool\<close>. \<open>isinstance(v, str)\<close> holds for \<open>PStr\<close> only.
\<close>

datatype pyval = PStr ustr | PNone | PInt int | PBool bool


text \<open>
  Exceptions, each with the text \<open>str(e)\<close> gives. \<open>UnicodeEncodeError\<close> is a subclass of
  \<open>ValueError\<close>; \<open>LibraryError\<close> stands for any other subclass of \<open>Exception\<close> raised
  inside one of the optional libraries.
\<close>

datatype exn =
  ValueError ustr | UnicodeEncodeError ustr | KeyError ustr | IndexError ustr | OSError ustr
  | LibraryError ustr

fun exn_str :: "exn \<Rightarrow> ustr" where
  "exn_str (ValueError m) = m"
| "exn_str (UnicodeEncodeError m) = m"
| "exn_str (KeyError m) = m"
| "exn_str (IndexError m) = m"
| "exn_str (OSError m) = m"
| "exn_str (LibraryError m) = m"


text \<open>
  One element of the list a text-classification pipeline returns: a \<open>dict\<close>, or some
  other object (for which \<open>isinstance(pred, dict)\<close> is false).
\<close>

datatype prediction = PredDict "ustr \<rightharpoonup> pyval" | PredOther

type_synonym classifier_fn = "ustr \<Rightarrow> exn + prediction list"

section \<open>The interpreter and the optional libraries\<close>

text \<open>
  What Project.py takes from outside itself. Each optional import either succeeded
  (\<open>Some\<close> of the imported callable) or failed (\<open>None\<close>); the flags
  \<open>LANGDETECT_AVAILABLE\<close>, \<open>TRANSFORMERS_AVAILABLE\<close> and \<open>TRANSLATOR_AVAILABLE\<close> are
  true exactly in the first case. A library call returns a value or raises a subclass of
  \<open>Exception\<close>.

  \<^item> \<open>lower_at s i\<close>: the code points \<open>str.lower\<close> puts in place of the character at
    index \<open>i\<close> of \<open>s\<close> (the Unicode lower-case mapping; it may depend on the
    neighbouring characters and may give more than one code point).
  \<^item> \<open>decimal_digit c\<close>: the digit value of \<open>c\<close> when \<open>c\<close> is a Unicode decimal
    digit, which is what \<open>\d\<close> matches in a \<open>str\<close> pattern and what \<open>int\<close> reads.
  \<^item> \<open>int_max_str_digits\<close>: the interpreter's limit on the number of digits \<open>int\<close>
    converts (0: no limit).
  \<^item> \<open>print_line l\<close>: what \<open>print(l)\<close> does on the standard output of the process:
    \<open>None\<close> when the line is written, \<open>Some e\<close> when \<open>print\<close> raises \<open>e\<close> (the
    stream cannot encode a character of the line, is closed, or its pipe is broken).
  \<^item> \<open>langdetect\<close>: \<open>langdetect.detect\<close>, taken at its declared result type \<open>str\<close>.
  \<^item> \<open>transformers\<close>: loading tokenizer, model and pipeline for a model name; the
    result is the pipeline.
  \<^item> \<open>deep_translator t x\<close>:
    \<open>GoogleTranslator(source='auto', target=t).translate(x)\<close>. \<open>translate_text\<close> hands
    its value on unchecked, so the value may be any object, \<open>None\<close> included.
\<close>

record runtime =
  lower_at :: "ustr \<Rightarrow> nat \<Rightarrow> ustr"
  decimal_digit :: "nat \<Rightarrow> nat option"
  int_max_str_digits :: nat
  print_line :: "ustr \<Rightarrow> exn option"
  langdetect :: "(pyval \<Rightarrow> exn + ustr) option"
  transformers :: "(ustr \<Rightarrow> exn + classifier_fn) option"
  deep_translator :: "(ustr \<Rightarrow> ustr \<Rightarrow> exn + pyval) option"

subsection \<open>String methods\<close>

text \<open>\<open>s.lower()\<close>: every character replaced by its lower-case mapping, in order.\<close>

definition py_lower :: "runtime \<Rightarrow> ustr \<Rightarrow> ustr" where
  "py_lower rt s = concat (map (lower_at rt s) [0..<length s])"

text \<open>
  \<open>s.strip()\<close> removes leading and trailing white space; \<open>is_space\<close> lists the code
  points for which \<open>str.isspace\<close> holds.
\<close>

definition is_space :: "nat \<Rightarrow> bool" where
  "is_space c =
     ((0x09 \<le> c \<and> c \<le> 0x0D) \<or> (0x1C \<le> c \<and> c \<le> 0x20) \<or> c = 0x85 \<or> c = 0xA0
      \<or> c = 0x1680 \<or> (0x2000 \<le> c \<and> c \<le> 0x200A) \<or> c = 0x2028 \<or> c = 0x2029
      \<or> c = 0x202F \<or> c = 0x205F \<or> c = 0x3000)"

definition py_strip :: "ustr \<Rightarrow> ustr" where
  "py_strip s = rev (dropWhile is_space (rev (dropWhile is_space s)))"

text \<open>
  \<open>w in txt\<close> on strings is \<^const>\<open>sublist\<close> (a contiguous occurrence) and
  \<open>s.startswith(p)\<close> is \<^const>\<open>prefix\<close>. \<open>re.search\<close> with a pattern that is one
  character class finds a match exactly when some character of the text is in the class.
\<close>

definition re_search_class :: "nat list \<Rightarrow> ustr \<Rightarrow> bool" where
  "re_search_class cls txt = list_ex (\<lambda>c. c \<in> set cls) txt"

text \<open>
  The loop \<open>for w in ws: if w in txt: return r\<close>: \<open>Some r\<close> when it returns, \<open>None\<close>
  when it runs to its end.
\<close>

fun for_return :: "ustr list \<Rightarrow> ustr \<Rightarrow> ustr \<Rightarrow> ustr option" where
  "for_return [] txt r = None"
| "for_return (w # ws) txt r = (if sublist w txt then Some r else for_return ws txt r)"

section \<open>Language detection\<close>

text \<open>The fallback \<open>_ld_detect\<close> defined when \<open>langdetect\<close> cannot be imported.\<close>

definition heuristic_ld_detect :: "runtime \<Rightarrow> pyval \<Rightarrow> ustr" where
  "heuristic_ld_detect rt text =
     (case text of
        PStr s \<Rightarrow>
          if py_strip s = [] then ascii ''en''
          else
            let txt = py_lower rt (py_strip s) in
            if sublist [0xBF] txt \<or> sublist [0xA1] txt then ascii ''es''
            else if re_search_class [0xF1, 0xE1, 0xE9, 0xED, 0xF3, 0xFA] txt then ascii ''es''
            else if re_search_class
                      [0xE0, 0xE2, 0xE7, 0xE8, 0xE9, 0xEA, 0xEB, 0xEE, 0xEF, 0xF4, 0xFB, 0xF9, 0xFC]
                      txt
              then ascii ''fr''
            else
              let spanish_markers =
                    [ascii ''pedido'', ascii ''orden'', ascii ''envio'',
                     ascii ''env'' @ [0xED] @ ascii ''o'', ascii ''d'' @ [0xF3] @ ascii ''nde'',
                     ascii ''donde'', ascii ''hola'', ascii ''gracias'', ascii ''por favor''];
                  french_markers =
                    [ascii ''bonjour'', ascii ''commande'', ascii ''o'' @ [0xF9], ascii ''ou'',
                     ascii ''merci'', ascii ''salut'']
              in
                (case for_return spanish_markers txt (ascii ''es'') of
                   Some r \<Rightarrow> r
                 | None \<Rightarrow>
                    (case for_return french_markers txt (ascii ''fr'') of
                       Some r \<Rightarrow> r
                     | None \<Rightarrow>
                        if txt \<in> set [ascii ''hello'', ascii ''hi'', ascii ''hey'']
                        then ascii ''en''
                        else ascii ''en''))
      | _ \<Rightarrow> ascii ''en'')"

text \<open>The name \<open>_ld_detect\<close> as bound by the import block at the top of the module.\<close>

definition ld_detect :: "runtime \<Rightarrow> pyval \<Rightarrow> exn + ustr" where
  "ld_detect rt text =
     (case langdetect rt of
        Some lib \<Rightarrow> lib text
      | None \<Rightarrow> Inr (heuristic_ld_detect rt text))"

definition detect :: "runtime \<Rightarrow> pyval \<Rightarrow> ustr" where
  "detect rt text = (case ld_detect rt text of Inr l \<Rightarrow> l | Inl e \<Rightarrow> ascii ''en'')"

section \<open>The chatbot\<close>

text \<open>The attributes of a \<open>MultilingualChatbot\<close> object.\<close>

record chatbot =
  model_name :: ustr
  model_loaded :: bool
  classifier :: "classifier_fn option"
  RESPONSES :: "ustr \<rightharpoonup> (ustr \<rightharpoonup> ustr)"
  LABEL_MAP :: "int \<rightharpoonup> ustr"
  order_keywords :: "ustr list"
  greeting_keywords :: "ustr list"

definition default_model_name :: ustr where
  "default_model_name = ascii ''bert-base-multilingual-cased''"

text \<open>The dictionary literal assigned to \<open>self.RESPONSES\<close> in \<open>__init__\<close>.\<close>

definition response_table :: "ustr \<rightharpoonup> (ustr \<rightharpoonup> ustr)" where
  "response_table =
    [ascii ''order_status'' \<mapsto>
       [ascii ''en'' \<mapsto> ascii ''Your order is on the way and will arrive tomorrow.'',
        ascii ''es'' \<mapsto>
          ascii ''Su pedido est'' @ [0xE1] @ ascii '' en camino y llegar'' @ [0xE1]
            @ ascii '' ma'' @ [0xF1] @ ascii ''ana.'',
        ascii ''fr'' \<mapsto> ascii ''Votre commande est en route et arrivera demain.''],
     ascii ''greeting'' \<mapsto>
       [ascii ''en'' \<mapsto> ascii ''Hello! How can I assist you today?'',
        ascii ''es'' \<mapsto>
          [0xA1] @ ascii ''Hola! '' @ [0xBF] @ ascii ''C'' @ [0xF3]
            @ ascii ''mo puedo ayudarte hoy?'',
        ascii ''fr'' \<mapsto>
          ascii ''Bonjour! Comment puis-je vous aider aujourd'' @ [0x27] @ ascii ''hui?''],
     ascii ''fallback'' \<mapsto>
       [ascii ''en'' \<mapsto> ascii ''Sorry, I didn'' @ [0x27] @ ascii ''t understand that.'',
        ascii ''es'' \<mapsto> ascii ''Lo siento, no entend'' @ [0xED] @ ascii '' eso.'',
        ascii ''fr'' \<mapsto>
          ascii ''D'' @ [0xE9] @ ascii ''sol'' @ [0xE9] @ ascii '', je n'' @ [0x27]
            @ ascii ''ai pas compris cela.'']]"

text \<open>
  One call of a method: what it returns or raises, the object when the call ends, and the
  lines it printed.
\<close>

record 'r run =
  returned :: "exn + 'r"
  self_after :: chatbot
  printed :: "ustr list"

text \<open>The lines \<open>__init__\<close> prints.\<close>

definition loaded_line :: "ustr \<Rightarrow> ustr" where
  "loaded_line name =
     ascii ''Transformer model '' @ [0x27] @ name @ [0x27]
       @ ascii '' loaded. Using transformer-based classifier.''"

definition load_warning :: "ustr \<Rightarrow> exn \<Rightarrow> ustr" where
  "load_warning name e =
     ascii ''Warning: could not load transformer model '' @ [0x27] @ name @ [0x27]
       @ ascii '': '' @ exn_str e"

definition fallback_line :: ustr where
  "fallback_line = ascii ''Falling back to rule-based classifier.''"

text \<open>
  The \<open>except\<close> block of \<open>__init__\<close>, entered with the exception \<open>e\<close> and the object as
  the \<open>try\<close> block left it: two prints, then \<open>model_loaded\<close> is cleared. A print that
  raises ends \<open>__init__\<close> with that exception.
\<close>

definition init_except :: "runtime \<Rightarrow> chatbot \<Rightarrow> exn \<Rightarrow> unit run" where
  "init_except rt self e =
     (case print_line rt (load_warning (model_name self) e) of
        Some pe \<Rightarrow> \<lparr> returned = Inl pe, self_after = self, printed = [] \<rparr>
      | None \<Rightarrow>
         (case print_line rt fallback_line of
            Some pe \<Rightarrow>
              \<lparr> returned = Inl pe, self_after = self,
                printed = [load_warning (model_name self) e] \<rparr>
          | None \<Rightarrow>
              \<lparr> returned = Inr (), self_after = self\<lparr>model_loaded := False\<rparr>,
                printed = [load_warning (model_name self) e, fallback_line] \<rparr>))"

text \<open>
  \<open>__init__\<close>. The three loading calls are one call of \<open>transformers\<close>; \<open>classifier\<close>
  is assigned only when all of them succeed. The print that reports the loaded model is
  inside the \<open>try\<close> block, so when it raises the \<open>except\<close> block runs with the
  classifier already assigned.
\<close>

definition init :: "runtime \<Rightarrow> ustr \<Rightarrow> unit run" where
  "init rt name =
     (let self =
        \<lparr> model_name = name,
          model_loaded = False,
          classifier = None,
          RESPONSES = response_table,
          LABEL_MAP =
            [0 \<mapsto> ascii ''order_status'', 1 \<mapsto> ascii ''greeting'', 2 \<mapsto> ascii ''fallback''],
          order_keywords =
            [ascii ''order'', ascii ''pedido'', ascii ''orden'', ascii ''en camino'',
             ascii ''where'', ascii ''d'' @ [0xF3] @ ascii ''nde'', ascii ''donde'',
             ascii ''o'' @ [0xF9], ascii ''env'' @ [0xED] @ ascii ''o'', ascii ''envio''],
          greeting_keywords =
            [ascii ''hello'', ascii ''hi'', ascii ''hey'', ascii ''hola'', ascii ''bonjour'',
             ascii ''buenos'', ascii ''buenas'', ascii ''salut''] \<rparr>
      in
        case transformers rt of
          Some load \<Rightarrow>
            (case load (model_name self) of
               Inr pipe \<Rightarrow>
                 (let loaded = self\<lparr>classifier := Some pipe, model_loaded := True\<rparr> in
                  case print_line rt (loaded_line (model_name self)) of
                    None \<Rightarrow>
                      \<lparr> returned = Inr (), self_after = loaded,
                        printed = [loaded_line (model_name self)] \<rparr>
                  | Some pe \<Rightarrow> init_except rt loaded pe)
             | Inl e \<Rightarrow> init_except rt self e)
        | None \<Rightarrow> \<lparr> returned = Inr (), self_after = self, printed = [] \<rparr>)"

text \<open>
  \<open>MultilingualChatbot(model_name)\<close>: the object \<open>__init__\<close> has built when it ends. The
  caller holds it when \<open>__init__\<close> returned.
\<close>

definition MultilingualChatbot :: "runtime \<Rightarrow> ustr \<Rightarrow> chatbot" where
  "MultilingualChatbot rt name = self_after (init rt name)"

subsection \<open>Intent classification\<close>

definition rule_based_intent :: "runtime \<Rightarrow> chatbot \<Rightarrow> ustr \<Rightarrow> ustr" where
  "rule_based_intent rt self text =
     (let txt = py_lower rt text in
      case for_return (greeting_keywords self) txt (ascii ''greeting'') of
        Some r \<Rightarrow> r
      | None \<Rightarrow>
         (case for_return (order_keywords self) txt (ascii ''order_status'') of
            Some r \<Rightarrow> r
          | None \<Rightarrow> ascii ''fallback''))"

text \<open>The decimal digits of a natural number, and \<open>str(v)\<close>.\<close>

fun nat_digits :: "nat \<Rightarrow> ustr" where
  "nat_digits n = (if n < 10 then [48 + n] else nat_digits (n div 10) @ [48 + n mod 10])"

declare nat_digits.simps [simp del]

fun py_str :: "pyval \<Rightarrow> ustr" where
  "py_str (PStr s) = s"
| "py_str PNone = ascii ''None''"
| "py_str (PInt i) = (if i < 0 then ascii ''-'' @ nat_digits (nat (- i)) else nat_digits (nat i))"
| "py_str (PBool b) = (if b then ascii ''True'' else ascii ''False'')"

text \<open>
  \<open>re.search(r"(\d+)", s)\<close>: \<open>None\<close> when \<open>s\<close> has no decimal digit, else group 1 of
  the match, the first maximal run of decimal digits.
\<close>

definition re_search_digits :: "runtime \<Rightarrow> ustr \<Rightarrow> ustr option" where
  "re_search_digits rt s =
     (let rest = dropWhile (\<lambda>c. decimal_digit rt c = None) s
      in if rest = [] then None else Some (takeWhile (\<lambda>c. decimal_digit rt c \<noteq> None) rest))"

text \<open>
  \<open>int(ds)\<close> for a string without sign, white space or underscores: \<open>ValueError\<close>
  when \<open>ds\<close> is empty, has a character that is no decimal digit, or has more digits
  than the interpreter's limit; else the number the digits denote.
\<close>

definition py_int :: "runtime \<Rightarrow> ustr \<Rightarrow> exn + int" where
  "py_int rt ds =
     (if ds = [] \<or> list_ex (\<lambda>c. decimal_digit rt c = None) ds
      then Inl (ValueError (ascii ''invalid literal for int() with base 10''))
      else if int_max_str_digits rt \<noteq> 0 \<and> int_max_str_digits rt < length ds
      then Inl (ValueError
             (ascii ''Exceeds the limit ('' @ nat_digits (int_max_str_digits rt)
                @ ascii '' digits) for integer string conversion: value has ''
                @ nat_digits (length ds)
                @ ascii '' digits; use sys.set_int_max_str_digits() to increase the limit''))
      else Inr (foldl (\<lambda>a c. 10 * a + (case decimal_digit rt c of Some d \<Rightarrow> int d | None \<Rightarrow> 0))
                  0 ds))"

definition parse_label_to_intent :: "runtime \<Rightarrow> chatbot \<Rightarrow> pyval \<Rightarrow> exn + ustr" where
  "parse_label_to_intent rt self label =
     (if label = PNone then Inr (ascii ''fallback'')
      else
        case re_search_digits rt (py_str label) of
          Some ds \<Rightarrow>
            (case py_int rt ds of
               Inl e \<Rightarrow> Inl e
             | Inr idx \<Rightarrow>
                 Inr (case LABEL_MAP self idx of Some v \<Rightarrow> v | None \<Rightarrow> ascii ''fallback''))
        | None \<Rightarrow>
            let label_lower = py_lower rt (py_str label) in
            if sublist (ascii ''greet'') label_lower \<or> sublist (ascii ''hello'') label_lower
               \<or> sublist (ascii ''hi'') label_lower
            then Inr (ascii ''greeting'')
            else Inr (ascii ''fallback''))"

subsection \<open>Translation\<close>

text \<open>
  The built-in translations at the end of \<open>translate_text\<close>. \<open>x or text\<close> gives
  \<open>text\<close> when \<open>x\<close> is \<open>None\<close> or the empty string.
\<close>

definition builtin_translation :: "chatbot \<Rightarrow> ustr \<Rightarrow> ustr \<Rightarrow> ustr" where
  "builtin_translation self text dest =
     (let fallback_dict =
            (case RESPONSES self (ascii ''fallback'') of Some d \<Rightarrow> d | None \<Rightarrow> Map.empty)
      in
        if prefix (ascii ''es'') dest then
          (case fallback_dict (ascii ''es'') of
             Some t \<Rightarrow> if t = [] then text else t
           | None \<Rightarrow> text)
        else if prefix (ascii ''fr'') dest then
          (case fallback_dict (ascii ''fr'') of
             Some t \<Rightarrow> if t = [] then text else t
           | None \<Rightarrow> text)
        else text)"

text \<open>The warning \<open>translate_text\<close> prints when the translator raises \<open>e\<close>.\<close>

definition translator_warning :: "exn \<Rightarrow> ustr" where
  "translator_warning e =
     ascii ''Warning: translator failed: '' @ exn_str e
       @ ascii ''. Falling back to built-in translations.''"

text \<open>
  \<open>translate_text\<close>: the value returned and the lines printed, or the exception raised.
  \<open>dest_lang\<close> may be \<open>None\<close> (\<open>dest_lang or ""\<close>). What the translator returns is
  returned as it is. The warning is printed inside the \<open>except\<close> block, so a print that
  raises there ends \<open>translate_text\<close> with that exception.
\<close>

definition translate_text ::
  "runtime \<Rightarrow> chatbot \<Rightarrow> ustr \<Rightarrow> ustr option \<Rightarrow> exn + (pyval \<times> ustr list)" where
  "translate_text rt self text dest_lang =
     (let dest = py_lower rt (case dest_lang of Some d \<Rightarrow> d | None \<Rightarrow> []) in
      if prefix (ascii ''en'') dest then Inr (PStr text, [])
      else
        case deep_translator rt of
          Some translate \<Rightarrow>
            (case translate dest text of
               Inr v \<Rightarrow> Inr (v, [])
             | Inl e \<Rightarrow>
                 (case print_line rt (translator_warning e) of
                    Some pe \<Rightarrow> Inl pe
                  | None \<Rightarrow>
                      Inr (PStr (builtin_translation self text dest), [translator_warning e])))
        | None \<Rightarrow> Inr (PStr (builtin_translation self text dest), []))"

subsection \<open>The pipeline\<close>

text \<open>
  The body of the \<open>try\<close> block around the transformer classifier in \<open>chat\<close>:
  \<open>self.classifier(message)[0]\<close>, the label of the prediction, and the parsed intent.
\<close>

definition classify_with_model :: "runtime \<Rightarrow> chatbot \<Rightarrow> classifier_fn \<Rightarrow> ustr \<Rightarrow> exn + ustr" where
  "classify_with_model rt self pipe message =
     (case pipe message of
        Inl e \<Rightarrow> Inl e
      | Inr [] \<Rightarrow> Inl (IndexError (ascii ''list index out of range''))
      | Inr (pred # _) \<Rightarrow>
          let label =
                (case pred of
                   PredDict d \<Rightarrow> (case d (ascii ''label'') of Some v \<Rightarrow> v | None \<Rightarrow> PNone)
                 | PredOther \<Rightarrow> PNone)
          in parse_label_to_intent rt self label)"

text \<open>The warning \<open>chat\<close> prints when the transformer classifier raises \<open>e\<close>.\<close>

definition classifier_warning :: "exn \<Rightarrow> ustr" where
  "classifier_warning e =
     ascii ''Warning: transformer classifier failed at runtime: '' @ exn_str e"

text \<open>
  The block of \<open>chat\<close> that sets \<open>intent\<close> ("use transformer if available and loaded;
  otherwise rule-based"): the intent and the lines printed, or the exception raised. The
  warning is printed inside the \<open>except\<close> block, before the rule-based classifier is
  called, so a print that raises there leaves the block, and \<open>chat\<close>, with that
  exception.
\<close>

definition classify_intent :: "runtime \<Rightarrow> chatbot \<Rightarrow> ustr \<Rightarrow> exn + (ustr \<times> ustr list)" where
  "classify_intent rt self message =
     (case (model_loaded self, classifier self) of
        (True, Some pipe) \<Rightarrow>
          (case classify_with_model rt self pipe message of
             Inr i \<Rightarrow> Inr (i, [])
           | Inl e \<Rightarrow>
               (case print_line rt (classifier_warning e) of
                  Some pe \<Rightarrow> Inl pe
                | None \<Rightarrow> Inr (rule_based_intent rt self message, [classifier_warning e])))
      | _ \<Rightarrow> Inr (rule_based_intent rt self message, []))"

text \<open>
  \<open>chat\<close>. The default argument \<open>self.RESPONSES["fallback"]\<close> of \<open>self.RESPONSES.get\<close>
  is evaluated before the call, so a table without that key raises \<open>KeyError\<close>. The
  reply is the canned text when the table has one for the detected language, else
  whatever \<open>translate_text\<close> returns.
\<close>

definition chat :: "runtime \<Rightarrow> chatbot \<Rightarrow> pyval \<Rightarrow> (ustr \<rightharpoonup> pyval) run" where
  "chat rt self message =
     (case message of
        PStr m \<Rightarrow>
          let detected_lang = detect rt message in
          (case classify_intent rt self m of
             Inl e \<Rightarrow> \<lparr> returned = Inl e, self_after = self, printed = [] \<rparr>
           | Inr (intent, out1) \<Rightarrow>
              (case RESPONSES self (ascii ''fallback'') of
                 None \<Rightarrow>
                   \<lparr> returned = Inl (KeyError ([0x27] @ ascii ''fallback'' @ [0x27])),
                     self_after = self, printed = out1 \<rparr>
               | Some fallback_dict \<Rightarrow>
                   let response_dict =
                         (case RESPONSES self intent of Some d \<Rightarrow> d | None \<Rightarrow> fallback_dict)
                   in
                     (case response_dict detected_lang of
                        Some r \<Rightarrow>
                          \<lparr> returned =
                              Inr [ascii ''detected_language'' \<mapsto> PStr detected_lang,
                                   ascii ''intent'' \<mapsto> PStr intent,
                                   ascii ''response'' \<mapsto> PStr r],
                            self_after = self, printed = out1 \<rparr>
                      | None \<Rightarrow>
                         (case translate_text rt self
                                 (case response_dict (ascii ''en'') of
                                    Some t \<Rightarrow> t | None \<Rightarrow> [])
                                 (Some detected_lang) of
                            Inl e \<Rightarrow> \<lparr> returned = Inl e, self_after = self, printed = out1 \<rparr>
                          | Inr (reply, out2) \<Rightarrow>
                              \<lparr> returned =
                                  Inr [ascii ''detected_language'' \<mapsto> PStr detected_lang,
                                       ascii ''intent'' \<mapsto> PStr intent,
                                       ascii ''response'' \<mapsto> reply],
                                self_after = self, printed = out1 @ out2 \<rparr>))))
      | _ \<Rightarrow>
          \<lparr> returned = Inl (ValueError (ascii ''message must be a string'')),
            self_after = self, printed = [] \<rparr>)"

section \<open>Reference definitions, as the specification words them\<close>

text \<open>
  The heuristic strategy of the language detector as the specification describes it:
  seven ordered checks on the lower-cased, trimmed input, and "en" at once for an empty
  or non-text input.
\<close>

definition spec_spanish_accents :: "nat set" where
  "spec_spanish_accents = {0xF1, 0xE1, 0xE9, 0xED, 0xF3, 0xFA}"

definition spec_french_accents :: "nat set" where
  "spec_french_accents =
     {0xE0, 0xE2, 0xE7, 0xE8, 0xE9, 0xEA, 0xEB, 0xEE, 0xEF, 0xF4, 0xFB, 0xF9, 0xFC}"

definition spec_spanish_markers :: "ustr list" where
  "spec_spanish_markers =
     [ascii ''pedido'', ascii ''orden'', ascii ''envio'', ascii ''env'' @ [0xED] @ ascii ''o'',
      ascii ''d'' @ [0xF3] @ ascii ''nde'', ascii ''donde'', ascii ''hola'', ascii ''gracias'',
      ascii ''por favor'']"

definition spec_french_markers :: "ustr list" where
  "spec_french_markers =
     [ascii ''bonjour'', ascii ''commande'', ascii ''o'' @ [0xF9], ascii ''ou'', ascii ''merci'',
      ascii ''salut'']"

definition spec_heuristic_detect :: "runtime \<Rightarrow> pyval \<Rightarrow> ustr" where
  "spec_heuristic_detect rt v =
     (case v of
        PStr s \<Rightarrow>
          if s = [] then ascii ''en''
          else
            let t = py_lower rt (py_strip s) in
            if 0xBF \<in> set t \<or> 0xA1 \<in> set t then ascii ''es''
            else if set t \<inter> spec_spanish_accents \<noteq> {} then ascii ''es''
            else if set t \<inter> spec_french_accents \<noteq> {} then ascii ''fr''
            else if find (\<lambda>w. sublist w t) spec_spanish_markers \<noteq> None then ascii ''es''
            else if find (\<lambda>w. sublist w t) spec_french_markers \<noteq> None then ascii ''fr''
            else if t = ascii ''hello'' \<or> t = ascii ''hi'' \<or> t = ascii ''hey'' then ascii ''en''
            else ascii ''en''
      | _ \<Rightarrow> ascii ''en'')"

text \<open>The rule-based strategy of the intent classifier as the specification describes it.\<close>

definition spec_greeting_keywords :: "ustr list" where
  "spec_greeting_keywords =
     [ascii ''hello'', ascii ''hi'', ascii ''hey'', ascii ''hola'', ascii ''bonjour'',
      ascii ''buenos'', ascii ''buenas'', ascii ''salut'']"

definition spec_order_keywords :: "ustr list" where
  "spec_order_keywords =
     [ascii ''order'', ascii ''pedido'', ascii ''orden'', ascii ''en camino'', ascii ''where'',
      ascii ''d'' @ [0xF3] @ ascii ''nde'', ascii ''donde'', ascii ''o'' @ [0xF9],
      ascii ''env'' @ [0xED] @ ascii ''o'', ascii ''envio'']"

definition spec_rule_based_intent :: "runtime \<Rightarrow> ustr \<Rightarrow> ustr" where
  "spec_rule_based_intent rt text =
     (let t = py_lower rt text in
      if find (\<lambda>w. sublist w t) spec_greeting_keywords \<noteq> None then ascii ''greeting''
      else if find (\<lambda>w. sublist w t) spec_order_keywords \<noteq> None then ascii ''order_status''
      else ascii ''fallback'')"

text \<open>
  The built-in translation rule as the specification describes it; \<open>canned\<close> is the
  canned text of an intent in a language, if the response table has one.
\<close>

definition canned :: "chatbot \<Rightarrow> ustr \<Rightarrow> ustr \<Rightarrow> ustr option" where
  "canned self intent lang =
     (case RESPONSES self intent of Some d \<Rightarrow> d lang | None \<Rightarrow> None)"

definition spec_builtin_translate :: "runtime \<Rightarrow> chatbot \<Rightarrow> ustr \<Rightarrow> ustr \<Rightarrow> ustr" where
  "spec_builtin_translate rt self text dest_lang =
     (let target = py_lower rt dest_lang in
      if prefix (ascii ''en'') target then text
      else if prefix (ascii ''es'') target then
        (case canned self (ascii ''fallback'') (ascii ''es'') of Some t \<Rightarrow> t | None \<Rightarrow> text)
      else if prefix (ascii ''fr'') target then
        (case canned self (ascii ''fallback'') (ascii ''fr'') of Some t \<Rightarrow> t | None \<Rightarrow> text)
      else text)"

section \<open>A concrete interpreter\<close>

text \<open>
  An interpreter with none of the optional libraries installed, for running the
  definitions on text in the Basic Latin and Latin-1 Supplement blocks (code points below
  256). There \<open>str.lower\<close> maps A to Z and the capital letters from \<open>0xC0\<close> to \<open>0xDE\<close>
  (the multiplication sign \<open>0xD7\<close> apart) to the code point 32 above and leaves every
  other character as it is, and the decimal digits are 0 to 9.
\<close>

definition latin1_lower :: "nat \<Rightarrow> nat" where
  "latin1_lower c =
     (if (0x41 \<le> c \<and> c \<le> 0x5A) \<or> (0xC0 \<le> c \<and> c \<le> 0xDE \<and> c \<noteq> 0xD7) then c + 32 else c)"

definition bare_runtime :: runtime where
  "bare_runtime =
     \<lparr> lower_at = (\<lambda>s i. [latin1_lower (s ! i)]),
       decimal_digit = (\<lambda>c. if 0x30 \<le> c \<and> c \<le> 0x39 then Some (c - 0x30) else None),
       int_max_str_digits = 4300,
       print_line = (\<lambda>l. None),
       langdetect = None,
       transformers = None,
       deep_translator = None \<rparr>"

text \<open>
  An interpreter with all three libraries installed and none of them of any help:
  \<open>langdetect\<close> answers "de" for every text, the model loads but the pipeline raises on
  every message, and the translator raises on every call. Every print succeeds.
\<close>

definition failing_runtime :: runtime where
  "failing_runtime =
     bare_runtime
       \<lparr> langdetect := Some (\<lambda>v. Inr (ascii ''de'')),
         transformers :=
           Some (\<lambda>name. Inr (\<lambda>m. Inl (LibraryError (ascii ''inference failed'')))),
         deep_translator := Some (\<lambda>t x. Inl (LibraryError (ascii ''no network''))) \<rparr>"




text \<open>The second test message of the \<open>__main__\<close> block of Project.py.\<close>

definition test_message_es :: ustr where
  "test_message_es =
     [0xBF] @ ascii ''D'' @ [0xF3] @ ascii ''nde est'' @ [0xE1] @ ascii '' mi pedido?''"

section \<open>Auxiliary facts\<close>

lemma for_return_find:
  "for_return ws t r = (if find (\<lambda>w. sublist w t) ws = None then None else Some r)"
  by (induction ws) auto

lemma for_return_hit:
  "w \<in> set ws \<Longrightarrow> sublist w t \<Longrightarrow> for_return ws t r = Some r"
  by (induction ws) auto

lemma for_return_result: "for_return ws t r = Some x \<Longrightarrow> x = r"
  by (induction ws) (auto split: if_splits)

lemma py_lower_Nil: "py_lower rt [] = []"
  by (simp add: py_lower_def)

lemma response_table_fallback:
  "\<exists>fb. response_table (ascii ''fallback'') = Some fb"
  by (simp add: response_table_def)

lemma init_RESPONSES: "RESPONSES (MultilingualChatbot rt name) = response_table"
  by (simp add: MultilingualChatbot_def init_def init_except_def Let_def
      split: option.splits sum.splits)

lemma init_LABEL_MAP:
  "LABEL_MAP (MultilingualChatbot rt name) =
     [0 \<mapsto> ascii ''order_status'', 1 \<mapsto> ascii ''greeting'', 2 \<mapsto> ascii ''fallback'']"
  by (simp add: MultilingualChatbot_def init_def init_except_def Let_def
      split: option.splits sum.splits)

lemma init_greeting_keywords:
  "greeting_keywords (MultilingualChatbot rt name) = spec_greeting_keywords"
  by (simp add: MultilingualChatbot_def init_def init_except_def Let_def
      spec_greeting_keywords_def split: option.splits sum.splits)

lemma init_order_keywords:
  "order_keywords (MultilingualChatbot rt name) = spec_order_keywords"
  by (simp add: MultilingualChatbot_def init_def init_except_def Let_def
      spec_order_keywords_def split: option.splits sum.splits)

lemma init_fallback:
  "\<exists>fb. RESPONSES (MultilingualChatbot rt name) (ascii ''fallback'') = Some fb"
  using response_table_fallback by (simp add: init_RESPONSES)

lemma re_search_class_set: "re_search_class cls t = (set t \<inter> set cls \<noteq> {})"
  by (auto simp: re_search_class_def list_ex_iff)

lemma sublist_single: "sublist [c] t = (c \<in> set t)"
  by (induction t) (auto simp: sublist_Cons_right)

lemma response_table_hit:
  assumes "i \<in> {ascii ''order_status'', ascii ''greeting'', ascii ''fallback''}"
    and "l \<in> {ascii ''en'', ascii ''es'', ascii ''fr''}"
  shows "\<exists>rd r. response_table i = Some rd \<and> rd l = Some r"
proof -
  from assms(1) obtain rd where rd: "response_table i = Some rd"
    and "rd (ascii ''en'') \<noteq> None \<and> rd (ascii ''es'') \<noteq> None \<and> rd (ascii ''fr'') \<noteq> None"
    by (auto simp: response_table_def)
  with assms(2) show ?thesis by auto
qed

lemma rule_based_intent_closed:
  "rule_based_intent rt self text \<in> {ascii ''order_status'', ascii ''greeting'', ascii ''fallback''}"
proof -
  have "rule_based_intent rt self text = ascii ''greeting''
        \<or> rule_based_intent rt self text = ascii ''order_status''
        \<or> rule_based_intent rt self text = ascii ''fallback''"
    unfolding rule_based_intent_def Let_def
    by (auto split: option.splits dest: for_return_result)
  then show ?thesis by blast
qed

lemma parse_label_closed:
  assumes "parse_label_to_intent rt (MultilingualChatbot rt name) label = Inr i"
  shows "i \<in> {ascii ''order_status'', ascii ''greeting'', ascii ''fallback''}"
proof -
  have lm: "\<And>k v. LABEL_MAP (MultilingualChatbot rt name) k = Some v \<Longrightarrow>
      v = ascii ''order_status'' \<or> v = ascii ''greeting'' \<or> v = ascii ''fallback''"
    by (auto simp: init_LABEL_MAP split: if_splits)
  from assms have "i = ascii ''order_status'' \<or> i = ascii ''greeting'' \<or> i = ascii ''fallback''"
    unfolding parse_label_to_intent_def Let_def
    by (auto split: if_splits option.splits sum.splits dest: lm)
  then show ?thesis by blast
qed

lemma classify_with_model_closed:
  assumes "classify_with_model rt (MultilingualChatbot rt name) pipe m = Inr i"
  shows "i \<in> {ascii ''order_status'', ascii ''greeting'', ascii ''fallback''}"
  using assms unfolding classify_with_model_def Let_def
  by (auto split: sum.splits list.splits dest: parse_label_closed)

lemma re_search_digits_Some:
  assumes "re_search_digits rt s = Some ds"
  shows "ds \<noteq> [] \<and> \<not> list_ex (\<lambda>c. decimal_digit rt c = None) ds"
proof -
  define rest where "rest = dropWhile (\<lambda>c. decimal_digit rt c = None) s"
  have unfold: "re_search_digits rt s =
      (if rest = [] then None else Some (takeWhile (\<lambda>c. decimal_digit rt c \<noteq> None) rest))"
    by (simp add: re_search_digits_def rest_def Let_def)
  from assms unfold have rest: "rest \<noteq> []"
    by (cases "rest = []") simp_all
  with assms unfold have ds: "ds = takeWhile (\<lambda>c. decimal_digit rt c \<noteq> None) rest"
    by simp
  from rest obtain x xs where cons: "rest = x # xs"
    by (cases rest) simp_all
  have "decimal_digit rt (hd rest) \<noteq> None"
    using rest hd_dropWhile[of "\<lambda>c. decimal_digit rt c = None" s]
    unfolding rest_def by blast
  with cons have "decimal_digit rt x \<noteq> None" by simp
  with cons ds have nonempty: "ds \<noteq> []" by simp
  have "\<And>c. c \<in> set ds \<Longrightarrow> decimal_digit rt c \<noteq> None"
    unfolding ds by (rule set_takeWhileD[THEN conjunct2])
  then have "\<not> list_ex (\<lambda>c. decimal_digit rt c = None) ds"
    unfolding list_ex_iff by blast
  with nonempty show ?thesis by blast
qed

lemma parse_label_raises:
  assumes "parse_label_to_intent rt self label = Inl e"
  shows "int_max_str_digits rt \<noteq> 0 \<and> (\<exists>t. e = ValueError t)"
  using assms unfolding parse_label_to_intent_def py_int_def Let_def
  by (auto split: if_splits option.splits sum.splits dest: re_search_digits_Some)

lemma fallback_entries:
  "\<exists>fb es fr. response_table (ascii ''fallback'') = Some fb
     \<and> fb (ascii ''es'') = Some es \<and> es \<noteq> [] \<and> fb (ascii ''fr'') = Some fr \<and> fr \<noteq> []"
  by (simp add: response_table_def)

lemma heuristic_ld_detect_closed:
  "heuristic_ld_detect rt v \<in> {ascii ''en'', ascii ''es'', ascii ''fr''}"
proof -
  have "heuristic_ld_detect rt v = ascii ''en'' \<or> heuristic_ld_detect rt v = ascii ''es''
        \<or> heuristic_ld_detect rt v = ascii ''fr''"
    unfolding heuristic_ld_detect_def Let_def
    by (auto split: pyval.splits option.splits dest: for_return_result)
  then show ?thesis by blast
qed

lemma py_lower_translator [simp]:
  "py_lower (rt\<lparr>deep_translator := tr\<rparr>) s = py_lower rt s"
  by (simp add: py_lower_def)

lemma heuristic_ld_detect_translator [simp]:
  "heuristic_ld_detect (rt\<lparr>deep_translator := tr\<rparr>) v = heuristic_ld_detect rt v"
  by (cases v) (simp_all add: heuristic_ld_detect_def)

lemma detect_translator [simp]:
  "detect (rt\<lparr>deep_translator := tr\<rparr>) v = detect rt v"
  by (simp add: detect_def ld_detect_def split: option.splits)

lemma rule_based_intent_translator [simp]:
  "rule_based_intent (rt\<lparr>deep_translator := tr\<rparr>) self text = rule_based_intent rt self text"
  by (simp add: rule_based_intent_def)

lemma parse_label_translator [simp]:
  "parse_label_to_intent (rt\<lparr>deep_translator := tr\<rparr>) self label
     = parse_label_to_intent rt self label"
  by (simp add: parse_label_to_intent_def re_search_digits_def py_int_def
      split: option.splits sum.splits)

lemma classify_with_model_translator [simp]:
  "classify_with_model (rt\<lparr>deep_translator := tr\<rparr>) self pipe m
     = classify_with_model rt self pipe m"
  by (simp add: classify_with_model_def split: sum.splits list.splits)

lemma test_message_es_strip: "py_strip test_message_es = test_message_es"
  by (simp add: py_strip_def test_message_es_def is_space_def)

lemma concat_singletons: "concat (map (\<lambda>x. [h x]) xs) = map h xs"
  by (induction xs) simp_all

lemma classify_intent_closed:
  assumes "classify_intent rt (MultilingualChatbot rt name) m = Inr c"
  shows "fst c \<in> {ascii ''order_status'', ascii ''greeting'', ascii ''fallback''}"
  using assms rule_based_intent_closed[of rt "MultilingualChatbot rt name" m]
  unfolding classify_intent_def
  by (auto split: bool.splits option.splits sum.splits dest: classify_with_model_closed)

lemma classify_intent_returns:
  assumes "\<And>e. print_line rt (classifier_warning e) = None"
  shows "\<exists>c. classify_intent rt self m = Inr c"
  unfolding classify_intent_def
  by (simp add: assms split: bool.splits option.splits sum.splits)


lemma translate_text_returns:
  assumes "\<And>e. print_line rt (translator_warning e) = None"
  shows "\<exists>t. translate_text rt self text dest_lang = Inr t"
  unfolding translate_text_def Let_def
  by (simp add: assms split: option.splits sum.splits)



text \<open>\<open>chat\<close> on a string when the table has a "fallback" entry.\<close>

lemma chat_PStr:
  assumes "RESPONSES self (ascii ''fallback'') = Some fb"
  shows "chat rt self (PStr m) =
     (case classify_intent rt self m of
        Inl e \<Rightarrow> \<lparr> returned = Inl e, self_after = self, printed = [] \<rparr>
      | Inr c \<Rightarrow>
         (let lang = detect rt (PStr m);
              rd = (case RESPONSES self (fst c) of Some d \<Rightarrow> d | None \<Rightarrow> fb)
          in case rd lang of
               Some r \<Rightarrow>
                 \<lparr> returned =
                     Inr [ascii ''detected_language'' \<mapsto> PStr lang,
                          ascii ''intent'' \<mapsto> PStr (fst c),
                          ascii ''response'' \<mapsto> PStr r],
                   self_after = self, printed = snd c \<rparr>
             | None \<Rightarrow>
                (case translate_text rt self (case rd (ascii ''en'') of Some t \<Rightarrow> t | None \<Rightarrow> [])
                        (Some lang) of
                   Inl e \<Rightarrow> \<lparr> returned = Inl e, self_after = self, printed = snd c \<rparr>
                 | Inr t \<Rightarrow>
                     \<lparr> returned =
                         Inr [ascii ''detected_language'' \<mapsto> PStr lang,
                              ascii ''intent'' \<mapsto> PStr (fst c),
                              ascii ''response'' \<mapsto> fst t],
                       self_after = self, printed = snd c @ snd t \<rparr>)))"
  unfolding chat_def Let_def using assms
  by (simp add: case_prod_beta split: sum.splits option.splits)

lemma classify_intent_translator [simp]:
  "classify_intent (rt\<lparr>deep_translator := tr\<rparr>) self m = classify_intent rt self m"
  by (simp add: classify_intent_def split: bool.splits option.splits sum.splits)

lemma init_except_translator [simp]:
  "init_except (rt\<lparr>deep_translator := tr\<rparr>) self e = init_except rt self e"
  by (simp add: init_except_def split: option.splits)

lemma init_translator [simp]:
  "MultilingualChatbot (rt\<lparr>deep_translator := tr\<rparr>) name = MultilingualChatbot rt name"
  by (simp add: MultilingualChatbot_def init_def Let_def split: option.splits sum.splits)

lemma py_lower_latin1:
  assumes "lower_at rt = lower_at bare_runtime"
  shows "py_lower rt s = map latin1_lower s"
proof -
  have "map (\<lambda>i. latin1_lower (s ! i)) [0..<length s]
        = map latin1_lower (map ((!) s) [0..<length s])"
    by simp
  then show ?thesis
    by (simp add: py_lower_def assms bare_runtime_def concat_singletons map_nth)
qed

lemma py_lower_bare0: "py_lower bare_runtime s = map latin1_lower s"
  by (rule py_lower_latin1) simp

text \<open>The four ways a call of \<open>chat\<close> on a string ends, on a constructed chatbot.\<close>

lemma chat_constructed_cases:
  fixes rt name m
  defines "B \<equiv> MultilingualChatbot rt name" and "lang \<equiv> detect rt (PStr m)"
  obtains
    (classifier_print_raises) e where
      "classify_intent rt B m = Inl e"
      "chat rt B (PStr m) = \<lparr> returned = Inl e, self_after = B, printed = [] \<rparr>"
  | (canned_reply) c rd r where
      "classify_intent rt B m = Inr c" "RESPONSES B (fst c) = Some rd" "rd lang = Some r"
      "chat rt B (PStr m) =
         \<lparr> returned =
             Inr [ascii ''detected_language'' \<mapsto> PStr lang,
                  ascii ''intent'' \<mapsto> PStr (fst c),
                  ascii ''response'' \<mapsto> PStr r],
           self_after = B, printed = snd c \<rparr>"
  | (translator_print_raises) c rd e where
      "classify_intent rt B m = Inr c" "RESPONSES B (fst c) = Some rd" "rd lang = None"
      "translate_text rt B (case rd (ascii ''en'') of Some t \<Rightarrow> t | None \<Rightarrow> []) (Some lang)
         = Inl e"
      "chat rt B (PStr m) = \<lparr> returned = Inl e, self_after = B, printed = snd c \<rparr>"
  | (translated_reply) c rd v out where
      "classify_intent rt B m = Inr c" "RESPONSES B (fst c) = Some rd" "rd lang = None"
      "translate_text rt B (case rd (ascii ''en'') of Some t \<Rightarrow> t | None \<Rightarrow> []) (Some lang)
         = Inr (v, out)"
      "chat rt B (PStr m) =
         \<lparr> returned =
             Inr [ascii ''detected_language'' \<mapsto> PStr lang,
                  ascii ''intent'' \<mapsto> PStr (fst c),
                  ascii ''response'' \<mapsto> v],
           self_after = B, printed = snd c @ out \<rparr>"
proof -
  obtain fb where fb: "RESPONSES B (ascii ''fallback'') = Some fb"
    unfolding B_def using init_fallback by blast
  note run = chat_PStr[OF fb, of rt m]
  show thesis
  proof (cases "classify_intent rt B m")
    case (Inl e)
    with run have "chat rt B (PStr m) = \<lparr> returned = Inl e, self_after = B, printed = [] \<rparr>"
      by simp
    with Inl show thesis by (rule classifier_print_raises)
  next
    case (Inr c)
    then have "fst c \<in> {ascii ''order_status'', ascii ''greeting'', ascii ''fallback''}"
      unfolding B_def by (rule classify_intent_closed)
    then obtain rd where rd: "RESPONSES B (fst c) = Some rd"
      using response_table_hit[of "fst c" "ascii ''en''"]
      unfolding B_def by (auto simp: init_RESPONSES)
    show thesis
    proof (cases "rd lang")
      case (Some r)
      have "chat rt B (PStr m) =
         \<lparr> returned =
             Inr [ascii ''detected_language'' \<mapsto> PStr lang,
                  ascii ''intent'' \<mapsto> PStr (fst c),
                  ascii ''response'' \<mapsto> PStr r],
           self_after = B, printed = snd c \<rparr>"
        unfolding run using Inr rd Some by (simp add: lang_def Let_def)
      with Inr rd Some show thesis by (rule canned_reply)
    next
      case None
      show thesis
      proof (cases "translate_text rt B (case rd (ascii ''en'') of Some t \<Rightarrow> t | None \<Rightarrow> [])
                      (Some lang)")
        case (Inl e)
        have "chat rt B (PStr m) = \<lparr> returned = Inl e, self_after = B, printed = snd c \<rparr>"
          unfolding run using Inr rd None Inl by (simp add: lang_def Let_def)
        with Inr rd None Inl show thesis by (rule translator_print_raises)
      next
        case (Inr t)
        obtain v out where t: "t = (v, out)" by (cases t)
        have "chat rt B (PStr m) =
         \<lparr> returned =
             Inr [ascii ''detected_language'' \<mapsto> PStr lang,
                  ascii ''intent'' \<mapsto> PStr (fst c),
                  ascii ''response'' \<mapsto> v],
           self_after = B, printed = snd c @ out \<rparr>"
          unfolding run using \<open>classify_intent rt B m = Inr c\<close> rd None Inr t
          by (simp add: lang_def Let_def)
        with \<open>classify_intent rt B m = Inr c\<close> rd None Inr[unfolded t]
        show thesis by (rule translated_reply)
      qed
    qed
  qed
qed





section \<open>The claims\<close>







text \<open>
  C3. The intent is always one of "order_status", "greeting", "fallback": the rule-based
  classifier returns one of them on every object and text; the label parser of a
  constructed chatbot returns one of them, unless \<open>int\<close> refuses a digit run longer than
  the interpreter's limit (a \<open>ValueError\<close>, which \<open>chat\<close> catches); the \<open>intent\<close> field
  of whatever \<open>chat\<close> returns for a string is one of them; and \<open>chat\<close> does return for a
  string when the warning lines can be printed.
\<close>

theorem intent_closed_enumeration:
  "rule_based_intent rt self text \<in> {ascii ''order_status'', ascii ''greeting'', ascii ''fallback''}
   \<and> ((\<exists>i \<in> {ascii ''order_status'', ascii ''greeting'', ascii ''fallback''}.
          parse_label_to_intent rt (MultilingualChatbot rt name) label = Inr i)
        \<or> (int_max_str_digits rt \<noteq> 0
            \<and> (\<exists>t. parse_label_to_intent rt (MultilingualChatbot rt name) label
                      = Inl (ValueError t))))
   \<and> (\<forall>d. returned (chat rt (MultilingualChatbot rt name) (PStr m)) = Inr d \<longrightarrow>
          (\<exists>i. d (ascii ''intent'') = Some (PStr i)
             \<and> i \<in> {ascii ''order_status'', ascii ''greeting'', ascii ''fallback''}))
   \<and> ((\<forall>e. print_line rt (classifier_warning e) = None)
        \<and> (\<forall>e. print_line rt (translator_warning e) = None) \<longrightarrow>
        (\<exists>d i. returned (chat rt (MultilingualChatbot rt name) (PStr m)) = Inr d
           \<and> d (ascii ''intent'') = Some (PStr i)
           \<and> i \<in> {ascii ''order_status'', ascii ''greeting'', ascii ''fallback''}))"
proof (intro conjI)
  show "rule_based_intent rt self text \<in> {ascii ''order_status'', ascii ''greeting'', ascii ''fallback''}"
    by (rule rule_based_intent_closed)
next
  show "(\<exists>i \<in> {ascii ''order_status'', ascii ''greeting'', ascii ''fallback''}.
          parse_label_to_intent rt (MultilingualChatbot rt name) label = Inr i)
        \<or> (int_max_str_digits rt \<noteq> 0
            \<and> (\<exists>t. parse_label_to_intent rt (MultilingualChatbot rt name) label
                      = Inl (ValueError t)))"
  proof (cases "parse_label_to_intent rt (MultilingualChatbot rt name) label")
    case (Inl e)
    with parse_label_raises[OF Inl] show ?thesis by blast
  next
    case (Inr i)
    with parse_label_closed[OF Inr] show ?thesis by blast
  qed
next
  show "\<forall>d. returned (chat rt (MultilingualChatbot rt name) (PStr m)) = Inr d \<longrightarrow>
          (\<exists>i. d (ascii ''intent'') = Some (PStr i)
             \<and> i \<in> {ascii ''order_status'', ascii ''greeting'', ascii ''fallback''})"
  proof (cases rule: chat_constructed_cases[of rt name m])
    case (classifier_print_raises e)
    then show ?thesis by simp
  next
    case (canned_reply c rd r)
    with classify_intent_closed[OF canned_reply(1)] show ?thesis by simp
  next
    case (translator_print_raises c rd e)
    then show ?thesis by simp
  next
    case (translated_reply c rd v out)
    with classify_intent_closed[OF translated_reply(1)] show ?thesis by simp
  qed
next
  show "(\<forall>e. print_line rt (classifier_warning e) = None)
        \<and> (\<forall>e. print_line rt (translator_warning e) = None) \<longrightarrow>
        (\<exists>d i. returned (chat rt (MultilingualChatbot rt name) (PStr m)) = Inr d
           \<and> d (ascii ''intent'') = Some (PStr i)
           \<and> i \<in> {ascii ''order_status'', ascii ''greeting'', ascii ''fallback''})"
  proof
    assume ok: "(\<forall>e. print_line rt (classifier_warning e) = None)
        \<and> (\<forall>e. print_line rt (translator_warning e) = None)"
    show "\<exists>d i. returned (chat rt (MultilingualChatbot rt name) (PStr m)) = Inr d
           \<and> d (ascii ''intent'') = Some (PStr i)
           \<and> i \<in> {ascii ''order_status'', ascii ''greeting'', ascii ''fallback''}"
    proof (cases rule: chat_constructed_cases[of rt name m])
      case (classifier_print_raises e)
      with classify_intent_returns[of rt "MultilingualChatbot rt name" m] ok
      show ?thesis by simp
    next
      case (canned_reply c rd r)
      with classify_intent_closed[OF canned_reply(1)] show ?thesis by simp
    next
      case (translator_print_raises c rd e)
      with translate_text_returns[of rt "MultilingualChatbot rt name"] ok
      show ?thesis by (metis sum.distinct(1))
    next
      case (translated_reply c rd v out)
      with classify_intent_closed[OF translated_reply(1)] show ?thesis by simp
    qed
  qed
qed

theorem intent_closed_enumeration_witness:
  "parse_label_to_intent bare_runtime (MultilingualChatbot bare_runtime default_model_name)
     (PStr (ascii ''LABEL_1'')) = Inr (ascii ''greeting'')
   \<and> rule_based_intent bare_runtime (MultilingualChatbot bare_runtime default_model_name)
         (ascii ''Ciao'')
       \<in> {ascii ''order_status'', ascii ''greeting'', ascii ''fallback''}
   \<and> (\<forall>e. print_line bare_runtime (classifier_warning e) = None)
   \<and> (\<forall>e. print_line bare_runtime (translator_warning e) = None)
   \<and> (\<exists>d i. returned (chat bare_runtime (MultilingualChatbot bare_runtime default_model_name)
                         (PStr (ascii ''Ciao''))) = Inr d
          \<and> d (ascii ''intent'') = Some (PStr i)
          \<and> i \<in> {ascii ''order_status'', ascii ''greeting'', ascii ''fallback''})"
proof -
  have ds: "re_search_digits bare_runtime (ascii ''LABEL_1'') = Some (ascii ''1'')"
    by (simp add: re_search_digits_def bare_runtime_def)
  have n: "py_int bare_runtime (ascii ''1'') = Inr 1"
    by (simp add: py_int_def bare_runtime_def)
  have p: "parse_label_to_intent bare_runtime (MultilingualChatbot bare_runtime default_model_name)
     (PStr (ascii ''LABEL_1'')) = Inr (ascii ''greeting'')"
    using ds n by (simp add: parse_label_to_intent_def init_LABEL_MAP)
  have ok: "(\<forall>e. print_line bare_runtime (classifier_warning e) = None)
      \<and> (\<forall>e. print_line bare_runtime (translator_warning e) = None)"
    by (simp add: bare_runtime_def)
  from intent_closed_enumeration[of bare_runtime
      "MultilingualChatbot bare_runtime default_model_name" "ascii ''Ciao''"
      default_model_name "PStr (ascii ''LABEL_1'')" "ascii ''Ciao''"] p ok
  show ?thesis by blast
qed

text \<open>
  C4. The fallback \<open>_ld_detect\<close> computes the seven-step reference procedure of the
  specification on every value, and when \<open>langdetect\<close> is not installed both
  \<open>_ld_detect\<close> and \<open>detect\<close> are that procedure.
\<close>

theorem heuristic_detect_refines_spec:
  "heuristic_ld_detect rt v = spec_heuristic_detect rt v
   \<and> (langdetect rt = None \<longrightarrow>
        ld_detect rt v = Inr (spec_heuristic_detect rt v)
        \<and> detect rt v = spec_heuristic_detect rt v)"
proof -
  have eq: "heuristic_ld_detect rt v = spec_heuristic_detect rt v"
  proof (cases v)
    case (PStr s)
    show ?thesis
    proof (cases "py_strip s = []")
      case True
      then show ?thesis using PStr
        by (simp add: heuristic_ld_detect_def spec_heuristic_detect_def py_lower_Nil
            spec_spanish_markers_def spec_french_markers_def)
    next
      case False
      then have "s \<noteq> []" by (auto simp: py_strip_def)
      then show ?thesis using PStr False
        by (simp add: heuristic_ld_detect_def spec_heuristic_detect_def Let_def for_return_find
            re_search_class_set sublist_single spec_spanish_markers_def spec_french_markers_def
            spec_spanish_accents_def spec_french_accents_def)
    qed
  qed (simp_all add: heuristic_ld_detect_def spec_heuristic_detect_def)
  then show ?thesis by (simp add: ld_detect_def detect_def)
qed

theorem heuristic_detect_refines_spec_witness:
  "langdetect bare_runtime = None
   \<and> detect bare_runtime (PStr (ascii ''Merci beaucoup''))
       = spec_heuristic_detect bare_runtime (PStr (ascii ''Merci beaucoup''))
   \<and> spec_heuristic_detect bare_runtime (PStr (ascii ''Merci beaucoup'')) = ascii ''fr''"
proof -
  have h: "langdetect bare_runtime = None" by (simp add: bare_runtime_def)
  have v: "spec_heuristic_detect bare_runtime (PStr (ascii ''Merci beaucoup'')) = ascii ''fr''"
    by (simp add: spec_heuristic_detect_def py_strip_def is_space_def py_lower_bare0
        latin1_lower_def spec_spanish_accents_def spec_french_accents_def
        spec_spanish_markers_def spec_french_markers_def sublist_code prefix_code)
  from heuristic_detect_refines_spec[of bare_runtime "PStr (ascii ''Merci beaucoup'')"] h v
  show ?thesis by simp
qed

text \<open>
  C5. On a constructed chatbot \<open>_rule_based_intent\<close> computes the reference definition
  of the specification: greeting keywords first, then order keywords, else "fallback".
\<close>

theorem rule_based_intent_refines_spec:
  "rule_based_intent rt (MultilingualChatbot rt name) text = spec_rule_based_intent rt text"
  by (simp add: rule_based_intent_def spec_rule_based_intent_def Let_def
      init_greeting_keywords init_order_keywords for_return_find)

theorem rule_based_intent_refines_spec_witness:
  "rule_based_intent bare_runtime (MultilingualChatbot bare_runtime default_model_name)
     (ascii ''Where is my order?'') = ascii ''order_status''"
proof -
  have "spec_rule_based_intent bare_runtime (ascii ''Where is my order?'') = ascii ''order_status''"
    by (simp add: spec_rule_based_intent_def spec_greeting_keywords_def spec_order_keywords_def
        py_lower_bare0 latin1_lower_def sublist_code prefix_code)
  with rule_based_intent_refines_spec[of bare_runtime default_model_name "ascii ''Where is my order?''"]
  show ?thesis by simp
qed

text \<open>
  C6. If the lower-cased text contains a greeting keyword of the object and an order
  keyword of the object, the rule-based classifier returns "greeting".
\<close>

theorem greeting_precedence:
  assumes "g \<in> set (greeting_keywords self)" and "sublist g (py_lower rt text)"
    and "k \<in> set (order_keywords self)" and "sublist k (py_lower rt text)"
  shows "rule_based_intent rt self text = ascii ''greeting''"
  using for_return_hit[OF assms(1,2)] by (simp add: rule_based_intent_def)

theorem greeting_precedence_witness:
  "ascii ''hello'' \<in> set (greeting_keywords (MultilingualChatbot bare_runtime default_model_name))
   \<and> sublist (ascii ''hello'') (py_lower bare_runtime (ascii ''Hello, where is my order?''))
   \<and> ascii ''order'' \<in> set (order_keywords (MultilingualChatbot bare_runtime default_model_name))
   \<and> sublist (ascii ''order'') (py_lower bare_runtime (ascii ''Hello, where is my order?''))
   \<and> rule_based_intent bare_runtime (MultilingualChatbot bare_runtime default_model_name)
         (ascii ''Hello, where is my order?'') = ascii ''greeting''"
proof -
  have g: "ascii ''hello'' \<in> set (greeting_keywords (MultilingualChatbot bare_runtime default_model_name))"
    by (simp add: init_greeting_keywords spec_greeting_keywords_def)
  have k: "ascii ''order'' \<in> set (order_keywords (MultilingualChatbot bare_runtime default_model_name))"
    by (simp add: init_order_keywords spec_order_keywords_def)
  have sg: "sublist (ascii ''hello'') (py_lower bare_runtime (ascii ''Hello, where is my order?''))"
    by (simp add: py_lower_bare0 latin1_lower_def sublist_code prefix_code)
  have sk: "sublist (ascii ''order'') (py_lower bare_runtime (ascii ''Hello, where is my order?''))"
    by (simp add: py_lower_bare0 latin1_lower_def sublist_code prefix_code)
  from greeting_precedence[OF g sg k sk] g sg k sk show ?thesis by blast
qed

text \<open>
  C7. Without \<open>deep_translator\<close>, \<open>translate_text\<close> on a constructed chatbot returns what
  the built-in rule of the specification gives for the target code, and prints nothing;
  a target of \<open>None\<close> counts as the empty code.
\<close>

theorem translate_text_builtin_rule:
  assumes "deep_translator rt = None"
  shows "translate_text rt (MultilingualChatbot rt name) text (Some dest)
         = Inr (PStr (spec_builtin_translate rt (MultilingualChatbot rt name) text dest), [])
       \<and> translate_text rt (MultilingualChatbot rt name) text None
         = Inr (PStr (spec_builtin_translate rt (MultilingualChatbot rt name) text []), [])"
proof -
  obtain fb es fr where "response_table (ascii ''fallback'') = Some fb"
     "fb (ascii ''es'') = Some es" "es \<noteq> []" "fb (ascii ''fr'') = Some fr" "fr \<noteq> []"
    using fallback_entries by blast
  then show ?thesis using assms
    by (simp add: translate_text_def builtin_translation_def spec_builtin_translate_def
        canned_def init_RESPONSES Let_def)
qed

theorem translate_text_builtin_rule_witness:
  "deep_translator bare_runtime = None
   \<and> translate_text bare_runtime (MultilingualChatbot bare_runtime default_model_name)
         (ascii ''Hello'') (Some (ascii ''ES-mx''))
       = Inr (PStr (ascii ''Lo siento, no entend'' @ [0xED] @ ascii '' eso.''), [])"
proof -
  have h: "deep_translator bare_runtime = None" by (simp add: bare_runtime_def)
  have v: "spec_builtin_translate bare_runtime
             (MultilingualChatbot bare_runtime default_model_name) (ascii ''Hello'') (ascii ''ES-mx'')
           = ascii ''Lo siento, no entend'' @ [0xED] @ ascii '' eso.''"
    by (simp add: spec_builtin_translate_def canned_def init_RESPONSES response_table_def
        py_lower_bare0 latin1_lower_def prefix_code)
  from translate_text_builtin_rule[OF h, of default_model_name "ascii ''Hello''" "ascii ''ES-mx''"] h v
  show ?thesis by simp
qed

text \<open>
  C8. With the heuristic detector (no \<open>langdetect\<close>) and the rule-based classifier (no
  model loaded), on an interpreter whose \<open>str.lower\<close> lower-cases the test message as
  Unicode does, \<open>chat\<close> on the Spanish test message returns \<open>detected_language\<close> "es",
  \<open>intent\<close> "order_status" and the Spanish canned order reply, and prints nothing.
\<close>

theorem chat_spanish_order_scenario:
  assumes "langdetect rt = None"
    and "\<not> model_loaded (MultilingualChatbot rt name)"
    and "py_lower rt test_message_es =
           [0xBF] @ ascii ''d'' @ [0xF3] @ ascii ''nde est'' @ [0xE1] @ ascii '' mi pedido?''"
  shows "chat rt (MultilingualChatbot rt name) (PStr test_message_es) =
     \<lparr> returned =
         Inr [ascii ''detected_language'' \<mapsto> PStr (ascii ''es''),
              ascii ''intent'' \<mapsto> PStr (ascii ''order_status''),
              ascii ''response'' \<mapsto>
                PStr (ascii ''Su pedido est'' @ [0xE1] @ ascii '' en camino y llegar'' @ [0xE1]
                        @ ascii '' ma'' @ [0xF1] @ ascii ''ana.'')],
       self_after = MultilingualChatbot rt name, printed = [] \<rparr>"
proof -
  let ?B = "MultilingualChatbot rt name"
  have nonempty: "test_message_es \<noteq> []" by (simp add: test_message_es_def)
  have lang: "detect rt (PStr test_message_es) = ascii ''es''"
    using assms(1) nonempty
    by (simp add: detect_def ld_detect_def heuristic_ld_detect_def test_message_es_strip
        assms(3) sublist_single)
  have rule: "rule_based_intent rt ?B test_message_es = ascii ''order_status''"
    by (simp add: rule_based_intent_def init_greeting_keywords init_order_keywords
        spec_greeting_keywords_def spec_order_keywords_def assms(3) sublist_code prefix_code)
  have intent: "classify_intent rt ?B test_message_es = Inr (ascii ''order_status'', [])"
    using assms(2) by (simp add: classify_intent_def rule)
  obtain fb where fb: "RESPONSES ?B (ascii ''fallback'') = Some fb"
    using init_fallback by blast
  have entry: "\<exists>rd. RESPONSES ?B (ascii ''order_status'') = Some rd
      \<and> rd (ascii ''es'') =
          Some (ascii ''Su pedido est'' @ [0xE1] @ ascii '' en camino y llegar'' @ [0xE1]
                  @ ascii '' ma'' @ [0xF1] @ ascii ''ana.'')"
    by (simp add: init_RESPONSES response_table_def)
  then obtain rd where rd: "RESPONSES ?B (ascii ''order_status'') = Some rd"
    and es: "rd (ascii ''es'') =
          Some (ascii ''Su pedido est'' @ [0xE1] @ ascii '' en camino y llegar'' @ [0xE1]
                  @ ascii '' ma'' @ [0xF1] @ ascii ''ana.'')"
    by blast
  show ?thesis
    unfolding chat_PStr[OF fb] Let_def lang intent using rd es by simp
qed

theorem chat_spanish_order_scenario_witness:
  "langdetect bare_runtime = None
   \<and> \<not> model_loaded (MultilingualChatbot bare_runtime default_model_name)
   \<and> py_lower bare_runtime test_message_es =
       [0xBF] @ ascii ''d'' @ [0xF3] @ ascii ''nde est'' @ [0xE1] @ ascii '' mi pedido?''
   \<and> chat bare_runtime (MultilingualChatbot bare_runtime default_model_name)
         (PStr test_message_es) =
       \<lparr> returned =
           Inr [ascii ''detected_language'' \<mapsto> PStr (ascii ''es''),
                ascii ''intent'' \<mapsto> PStr (ascii ''order_status''),
                ascii ''response'' \<mapsto>
                  PStr (ascii ''Su pedido est'' @ [0xE1] @ ascii '' en camino y llegar'' @ [0xE1]
                          @ ascii '' ma'' @ [0xF1] @ ascii ''ana.'')],
         self_after = MultilingualChatbot bare_runtime default_model_name, printed = [] \<rparr>"
proof -
  have h1: "langdetect bare_runtime = None" by (simp add: bare_runtime_def)
  have h2: "\<not> model_loaded (MultilingualChatbot bare_runtime default_model_name)"
    by (simp add: MultilingualChatbot_def init_def bare_runtime_def)
  have h3: "py_lower bare_runtime test_message_es =
       [0xBF] @ ascii ''d'' @ [0xF3] @ ascii ''nde est'' @ [0xE1] @ ascii '' mi pedido?''"
    by (simp add: py_lower_bare0 latin1_lower_def test_message_es_def)
  from chat_spanish_order_scenario[OF h1 h2 h3] h1 h2 h3 show ?thesis by blast
qed

text \<open>
  C9. For every string message and every state of the object, the object after \<open>chat\<close>
  is the object before it: response table, keyword lists, label map, \<open>model_loaded\<close> and
  \<open>classifier\<close> are the same.
\<close>

theorem chat_leaves_state:
  "self_after (chat rt self (PStr m)) = self"
  by (simp add: chat_def Let_def split: option.splits prod.splits sum.splits)

theorem chat_leaves_state_witness:
  "self_after (chat failing_runtime (MultilingualChatbot failing_runtime default_model_name)
                 (PStr (ascii ''Hello'')))
   = MultilingualChatbot failing_runtime default_model_name"
  by (rule chat_leaves_state)

text \<open>
  C10. The heuristic detector returns only "en", "es" or "fr". So when \<open>langdetect\<close> is
  not installed, the \<open>response\<close> in whatever \<open>chat\<close> returns on a constructed chatbot is
  the entry of the response table for the returned intent and language; \<open>chat\<close> does
  return when the classifier warning can be printed; and the call is the same whatever
  the translator is: \<open>translate_text\<close> plays no part in it.
\<close>

theorem heuristic_detector_canned_reply:
  assumes "langdetect rt = None"
  shows "heuristic_ld_detect rt v \<in> {ascii ''en'', ascii ''es'', ascii ''fr''}
    \<and> detect rt v \<in> {ascii ''en'', ascii ''es'', ascii ''fr''}
    \<and> (\<forall>d. returned (chat rt (MultilingualChatbot rt name) (PStr m)) = Inr d \<longrightarrow>
         (\<exists>intent lang rd r.
            d (ascii ''intent'') = Some (PStr intent)
            \<and> d (ascii ''detected_language'') = Some (PStr lang)
            \<and> RESPONSES (MultilingualChatbot rt name) intent = Some rd
            \<and> rd lang = Some r
            \<and> d (ascii ''response'') = Some (PStr r)))
    \<and> ((\<forall>e. print_line rt (classifier_warning e) = None) \<longrightarrow>
         (\<exists>d intent lang rd r.
            returned (chat rt (MultilingualChatbot rt name) (PStr m)) = Inr d
            \<and> d (ascii ''intent'') = Some (PStr intent)
            \<and> d (ascii ''detected_language'') = Some (PStr lang)
            \<and> RESPONSES (MultilingualChatbot rt name) intent = Some rd
            \<and> rd lang = Some r
            \<and> d (ascii ''response'') = Some (PStr r)))
    \<and> chat (rt\<lparr>deep_translator := tr\<rparr>) (MultilingualChatbot (rt\<lparr>deep_translator := tr\<rparr>) name)
          (PStr m)
        = chat rt (MultilingualChatbot rt name) (PStr m)"
proof -
  let ?B = "MultilingualChatbot rt name"
  let ?L = "{ascii ''en'', ascii ''es'', ascii ''fr''}"
  have det: "\<And>x. detect rt x = heuristic_ld_detect rt x"
    using assms by (simp add: detect_def ld_detect_def)
  have lang: "detect rt (PStr m) \<in> ?L"
    unfolding det by (rule heuristic_ld_detect_closed)
  have hit: "rd (detect rt (PStr m)) \<noteq> None"
    if "classify_intent rt ?B m = Inr c" and "RESPONSES ?B (fst c) = Some rd" for c rd
    using response_table_hit[OF classify_intent_closed[OF that(1)] lang] that(2)
    by (auto simp: init_RESPONSES)
  obtain fb where fb: "RESPONSES ?B (ascii ''fallback'') = Some fb"
    using init_fallback by blast
  have part3: "\<forall>d. returned (chat rt ?B (PStr m)) = Inr d \<longrightarrow>
         (\<exists>intent lang rd r.
            d (ascii ''intent'') = Some (PStr intent)
            \<and> d (ascii ''detected_language'') = Some (PStr lang)
            \<and> RESPONSES ?B intent = Some rd
            \<and> rd lang = Some r
            \<and> d (ascii ''response'') = Some (PStr r))"
  proof (cases rule: chat_constructed_cases[of rt name m])
    case (classifier_print_raises e)
    then show ?thesis by simp
  next
    case (canned_reply c rd r)
    then show ?thesis by auto
  next
    case (translator_print_raises c rd e)
    with hit show ?thesis by blast
  next
    case (translated_reply c rd v out)
    with hit show ?thesis by blast
  qed
  have part4: "(\<forall>e. print_line rt (classifier_warning e) = None) \<longrightarrow>
         (\<exists>d intent lang rd r.
            returned (chat rt ?B (PStr m)) = Inr d
            \<and> d (ascii ''intent'') = Some (PStr intent)
            \<and> d (ascii ''detected_language'') = Some (PStr lang)
            \<and> RESPONSES ?B intent = Some rd
            \<and> rd lang = Some r
            \<and> d (ascii ''response'') = Some (PStr r))"
  proof
    assume ok: "\<forall>e. print_line rt (classifier_warning e) = None"
    show "\<exists>d intent lang rd r.
            returned (chat rt ?B (PStr m)) = Inr d
            \<and> d (ascii ''intent'') = Some (PStr intent)
            \<and> d (ascii ''detected_language'') = Some (PStr lang)
            \<and> RESPONSES ?B intent = Some rd
            \<and> rd lang = Some r
            \<and> d (ascii ''response'') = Some (PStr r)"
    proof (cases rule: chat_constructed_cases[of rt name m])
      case (classifier_print_raises e)
      with classify_intent_returns[of rt ?B m] ok show ?thesis by simp
    next
      case (canned_reply c rd r)
      then show ?thesis by auto
    next
      case (translator_print_raises c rd e)
      with hit show ?thesis by blast
    next
      case (translated_reply c rd v out)
      with hit show ?thesis by blast
    qed
  qed
  have part5: "chat (rt\<lparr>deep_translator := tr\<rparr>) ?B (PStr m) = chat rt ?B (PStr m)"
  proof (cases "classify_intent rt ?B m")
    case (Inl e)
    then show ?thesis
      unfolding chat_PStr[OF fb] by simp
  next
    case (Inr c)
    obtain rd where rd: "RESPONSES ?B (fst c) = Some rd"
      using response_table_hit[OF classify_intent_closed[OF Inr] lang]
      by (auto simp: init_RESPONSES)
    from hit[OF Inr rd] obtain r where r: "rd (detect rt (PStr m)) = Some r" by blast
    show ?thesis
      unfolding chat_PStr[OF fb] Let_def using Inr rd r by simp
  qed
  show ?thesis
    using heuristic_ld_detect_closed[of rt v] part3 part4 part5
    unfolding det by simp
qed

theorem heuristic_detector_canned_reply_witness:
  "langdetect bare_runtime = None
   \<and> (\<forall>e. print_line bare_runtime (classifier_warning e) = None)
   \<and> detect bare_runtime (PStr (ascii ''Bonjour'')) \<in> {ascii ''en'', ascii ''es'', ascii ''fr''}
   \<and> (\<exists>d intent lang rd r.
          returned (chat bare_runtime (MultilingualChatbot bare_runtime default_model_name)
                      (PStr (ascii ''Bonjour''))) = Inr d
          \<and> d (ascii ''intent'') = Some (PStr intent)
          \<and> d (ascii ''detected_language'') = Some (PStr lang)
          \<and> RESPONSES (MultilingualChatbot bare_runtime default_model_name) intent = Some rd
          \<and> rd lang = Some r
          \<and> d (ascii ''response'') = Some (PStr r))
   \<and> chat (bare_runtime\<lparr>deep_translator := Some (\<lambda>t x. Inr (PStr x))\<rparr>)
         (MultilingualChatbot (bare_runtime\<lparr>deep_translator := Some (\<lambda>t x. Inr (PStr x))\<rparr>)
            default_model_name)
         (PStr (ascii ''Bonjour''))
       = chat bare_runtime (MultilingualChatbot bare_runtime default_model_name)
           (PStr (ascii ''Bonjour''))"
proof -
  have h: "langdetect bare_runtime = None" by (simp add: bare_runtime_def)
  have ok: "\<forall>e. print_line bare_runtime (classifier_warning e) = None"
    by (simp add: bare_runtime_def)
  from heuristic_detector_canned_reply[OF h, of "PStr (ascii ''Bonjour'')" default_model_name
      "ascii ''Bonjour''" "Some (\<lambda>t x. Inr (PStr x))"] h ok
  show ?thesis by blast
qed

end
